theory Spec2Isabelle
  imports Complex_Main
begin

section \<open>Query filters: \<open>src/utils/lib/queryFilters/index.ts\<close>\<close>

text \<open>
  The module has three functions: \<open>buildFilterObject\<close>, \<open>validateFilterFields\<close> and the
  private helper \<open>stringToObject\<close>. They work on untyped JavaScript values (\<open>any\<close>), so
  the embedding starts with a datatype of the values that can reach them.
\<close>

subsection \<open>JavaScript values\<close>

text \<open>
  A JavaScript number is \<open>NaN\<close>, an infinity or a finite double, which is a rational.
  The code never computes with numbers: it only asks whether one is \<open>NaN\<close> or falsy, so
  the sign of zero is not modelled.
\<close>

datatype number = NaN | Fin rat | PosInfinity | NegInfinity

text \<open>
  \<open>JDate\<close> carries the time value of a \<open>Date\<close> object in milliseconds (\<open>None\<close> for an
  invalid date). \<open>JObj\<close> is any other object, given by its own enumerable string-keyed
  properties in the order a \<open>for ... in\<close> loop visits them (insertion order; keys that
  are array indices, which the loop visits first, are not reordered); an array is the
  object whose keys are its indices.
  \<open>JFunction\<close> is an opaque function value such as the constructor \<open>String\<close> in a
  schema definition. Prototype chains are not modelled: no key of a filter or schema
  is taken to be \<open>__proto__\<close>.
\<close>

datatype jsval =
    JUndefined
  | JNull
  | JBool bool
  | JNum number
  | JStr string
  | JDate "int option"
  | JFunction string
  | JObj "(string \<times> jsval) list"

type_synonym object = "(string \<times> jsval) list"

text \<open>\<open>new Error(message)\<close>, and the \<open>TypeError\<close> of calling a method that is not there.\<close>

datatype error = TypeError | Error string

definition InvalidFilterFormat :: error where
  "InvalidFilterFormat = Error ''Invalid filter query format''"

text \<open>
  The built-in functions the module calls are parameters of the model. \<open>Number\<close> is the
  coercion of a string to a number; \<open>Date_parse\<close> gives the time value of a date string
  (\<open>None\<close> for \<open>NaN\<close>); \<open>JSON_parse\<close> takes the argument as it is passed (the built-in
  coerces it to a string itself) and is \<open>None\<close> where the built-in throws.
\<close>

record host =
  Number :: "string \<Rightarrow> number"
  Date_parse :: "string \<Rightarrow> int option"
  JSON_parse :: "jsval \<Rightarrow> jsval option"

text \<open>Truthiness (\<open>if (v)\<close>, \<open>!v\<close>, \<open>a && b\<close>) and the \<open>typeof\<close> operator.\<close>

fun truthy :: "jsval \<Rightarrow> bool" where
  "truthy JUndefined = False"
| "truthy JNull = False"
| "truthy (JBool b) = b"
| "truthy (JNum n) = (n \<noteq> NaN \<and> n \<noteq> Fin 0)"
| "truthy (JStr s) = (s \<noteq> [])"
| "truthy (JDate t) = True"
| "truthy (JFunction f) = True"
| "truthy (JObj kvs) = True"

fun typeof :: "jsval \<Rightarrow> string" where
  "typeof JUndefined = ''undefined''"
| "typeof JNull = ''object''"
| "typeof (JBool b) = ''boolean''"
| "typeof (JNum n) = ''number''"
| "typeof (JStr s) = ''string''"
| "typeof (JDate t) = ''object''"
| "typeof (JFunction f) = ''function''"
| "typeof (JObj kvs) = ''object''"

subsection \<open>Objects\<close>

text \<open>\<open>o.hasOwnProperty(key)\<close>, \<open>o[key]\<close> and \<open>o[key] = v\<close> on a property list.\<close>

definition hasOwnProperty :: "object \<Rightarrow> string \<Rightarrow> bool" where
  "hasOwnProperty kvs key = (key \<in> set (map fst kvs))"

definition get_prop :: "object \<Rightarrow> string \<Rightarrow> jsval" where
  "get_prop kvs key = (case map_of kvs key of None \<Rightarrow> JUndefined | Some v \<Rightarrow> v)"

fun set_prop :: "object \<Rightarrow> string \<Rightarrow> jsval \<Rightarrow> object" where
  "set_prop [] key v = [(key, v)]"
| "set_prop (p # ps) key v = (if fst p = key then (key, v) # ps else p # set_prop ps key v)"

text \<open>The keys a \<open>for (const key in v)\<close> loop visits, \<open>v[key]\<close>, and \<open>key in v\<close>.\<close>

fun for_in_keys :: "jsval \<Rightarrow> string list" where
  "for_in_keys (JObj kvs) = map fst kvs"
| "for_in_keys v = []"

fun index :: "jsval \<Rightarrow> string \<Rightarrow> jsval" where
  "index (JObj kvs) key = get_prop kvs key"
| "index v key = JUndefined"

fun in_op :: "string \<Rightarrow> jsval \<Rightarrow> bool" where
  "in_op key (JObj kvs) = hasOwnProperty kvs key"
| "in_op key v = False"

subsection \<open>Strings\<close>

text \<open>
  A string is a list of 8-bit code units. \<open>trim\<close> removes the white space and line
  terminators of that range from both ends.
\<close>

definition is_space :: "char \<Rightarrow> bool" where
  "is_space c = (c \<in> {CHR 0x09, CHR 0x0A, CHR 0x0B, CHR 0x0C, CHR 0x0D, CHR 0x20, CHR 0xA0})"

definition trim :: "string \<Rightarrow> string" where
  "trim s = rev (dropWhile is_space (rev (dropWhile is_space s)))"

text \<open>\<open>s.split(c)\<close> for a one-character separator: every occurrence separates.\<close>

fun split_on :: "char \<Rightarrow> string \<Rightarrow> string list" where
  "split_on c [] = [[]]"
| "split_on c (x # xs) =
     (if x = c then [] # split_on c xs
      else (case split_on c xs of [] \<Rightarrow> [[x]] | y # ys \<Rightarrow> (x # y) # ys))"

text \<open>\<open>const [a, b] = xs\<close>: the first two elements, \<open>undefined\<close> where there is none.\<close>

fun destructure2 :: "'a list \<Rightarrow> 'a option \<times> 'a option" where
  "destructure2 [] = (None, None)"
| "destructure2 [a] = (Some a, None)"
| "destructure2 (a # b # rest) = (Some a, Some b)"

text \<open>
  A destructured string that may be \<open>undefined\<close>: as a value, and as the string it is
  coerced to where one is expected (a computed key, the argument of \<open>Date.parse\<close>).
\<close>

fun opt_val :: "string option \<Rightarrow> jsval" where
  "opt_val None = JUndefined"
| "opt_val (Some s) = JStr s"

fun opt_str :: "string option \<Rightarrow> string" where
  "opt_str None = ''undefined''"
| "opt_str (Some s) = s"

text \<open>\<open>.replace(/^\{/, "")\<close> and \<open>.replace(/\}$/, "")\<close>.\<close>

fun strip_open :: "string \<Rightarrow> string" where
  "strip_open [] = []"
| "strip_open (c # cs) = (if c = CHR ''{'' then cs else c # cs)"

definition strip_close :: "string \<Rightarrow> string" where
  "strip_close s = (if s \<noteq> [] \<and> last s = CHR ''}'' then butlast s else s)"

subsection \<open>\<open>buildFilterObject\<close>\<close>

definition buildFilterObject :: "host \<Rightarrow> jsval \<Rightarrow> error + jsval" where
  "buildFilterObject h filterQuery =
     (if truthy filterQuery then
        (case JSON_parse h filterQuery of
           Some parsedFilter \<Rightarrow> Inr parsedFilter
         | None \<Rightarrow> Inl (Error ''Invalid filter query format''))
      else Inr (JObj []))"

subsection \<open>\<open>stringToObject\<close>\<close>

text \<open>The branch of the loop body taken when \<open>value.includes(":")\<close>.\<close>

definition operator_entry :: "host \<Rightarrow> string \<Rightarrow> jsval" where
  "operator_entry h val =
     (case destructure2 (map trim (split_on CHR '':'' val)) of
        (operator, operatorValue) \<Rightarrow>
          (case Date_parse h (opt_str operatorValue) of
             None \<Rightarrow> JObj [(opt_str operator, opt_val operatorValue)]
           | Some t \<Rightarrow>
               if t \<noteq> 0 then JObj [(opt_str operator, JDate (Date_parse h (opt_str operatorValue)))]
               else JObj [(opt_str operator, opt_val operatorValue)]))"

text \<open>The other branch: \<open>isNaN(Number(value)) ? value : Number(value)\<close>.\<close>

definition plain_entry :: "host \<Rightarrow> string \<Rightarrow> jsval" where
  "plain_entry h val = (if Number h val = NaN then JStr val else JNum (Number h val))"

text \<open>One iteration of \<open>for (const pair of pairs)\<close>.\<close>

definition store_pair :: "host \<Rightarrow> object \<Rightarrow> string \<Rightarrow> object" where
  "store_pair h result pair =
     (case destructure2 (map trim (split_on CHR ''='' pair)) of
        (Some key, Some val) \<Rightarrow>
          if key \<noteq> [] \<and> val \<noteq> [] then
            (if CHR '':'' \<in> set val then set_prop result key (operator_entry h val)
             else set_prop result key (plain_entry h val))
          else result
      | _ \<Rightarrow> result)"

fun parse_pairs :: "host \<Rightarrow> string list \<Rightarrow> object \<Rightarrow> object" where
  "parse_pairs h [] result = result"
| "parse_pairs h (pair # pairs) result = parse_pairs h pairs (store_pair h result pair)"

text \<open>The string path: everything after the two guards.\<close>

definition parse_string :: "host \<Rightarrow> string \<Rightarrow> object" where
  "parse_string h s = parse_pairs h (split_on CHR '','' (strip_close (strip_open (trim s)))) []"

text \<open>
  A truthy value that is neither an object nor a string has no \<open>trim\<close> method, and the
  call raises a \<open>TypeError\<close>.
\<close>

definition stringToObject :: "host \<Rightarrow> jsval \<Rightarrow> error + jsval" where
  "stringToObject h str =
     (if \<not> truthy str \<or> str = JStr ''{}'' then Inr (JObj [])
      else if typeof str = ''object'' then Inr str
      else (case str of
              JStr s \<Rightarrow> Inr (JObj (parse_string h s))
            | _ \<Rightarrow> Inl TypeError))"

subsection \<open>\<open>validateFilterFields\<close>\<close>

text \<open>The schema is used through its \<open>obj\<close> property only.\<close>

record schema =
  obj :: object

definition warning :: "string \<Rightarrow> string" where
  "warning key = ''Field '' @ [CHR 0x27] @ key @ [CHR 0x27] @ '' is not queryable.''"

text \<open>
  The state of the loop is the object \<open>sanitizedFilter\<close> and the messages passed to
  \<open>console.warn\<close> so far.
\<close>

definition validate_step :: "schema \<Rightarrow> jsval \<Rightarrow> object \<times> string list \<Rightarrow> string \<Rightarrow> object \<times> string list" where
  "validate_step sch filterObject st key =
     (case st of (sanitizedFilter, console) \<Rightarrow>
        if hasOwnProperty (obj sch) key \<or> key = ''createdAt'' \<or> key = ''updatedAt'' then
          (let field = get_prop (obj sch) key in
             if (truthy field \<and> typeof field = ''object'' \<and> in_op ''q'' field)
                \<or> key = ''createdAt'' \<or> key = ''updatedAt''
             then (set_prop sanitizedFilter key (index filterObject key), console)
             else (sanitizedFilter, console @ [warning key]))
        else (sanitizedFilter, console))"

fun validate_loop :: "schema \<Rightarrow> jsval \<Rightarrow> string list \<Rightarrow> object \<times> string list \<Rightarrow> object \<times> string list" where
  "validate_loop sch filterObject [] st = st"
| "validate_loop sch filterObject (key # keys) st =
     validate_loop sch filterObject keys (validate_step sch filterObject st key)"

definition validateFilterFields :: "host \<Rightarrow> jsval \<Rightarrow> schema \<Rightarrow> error + (object \<times> string list)" where
  "validateFilterFields h filter_in sch =
     (case stringToObject h filter_in of
        Inl e \<Rightarrow> Inl e
      | Inr filterObject \<Rightarrow>
          Inr (validate_loop sch filterObject (for_in_keys filterObject) ([], [])))"

subsection \<open>The wording of the specification\<close>

text \<open>
  A field is queryable when it is one of the two timestamp fields, or the schema has an
  entry for it and that entry is an object with the marker attribute \<open>q\<close>.
\<close>

definition queryable :: "schema \<Rightarrow> string \<Rightarrow> bool" where
  "queryable sch key =
     (key = ''createdAt'' \<or> key = ''updatedAt'' \<or>
      (case map_of (obj sch) key of
         Some (JObj meta) \<Rightarrow> hasOwnProperty meta ''q''
       | _ \<Rightarrow> False))"



text \<open>The scalars of JSON: numbers, booleans, \<open>null\<close> and strings.\<close>

fun json_scalar :: "jsval \<Rightarrow> bool" where
  "json_scalar (JNum n) = True"
| "json_scalar (JBool b) = True"
| "json_scalar JNull = True"
| "json_scalar (JStr s) = True"
| "json_scalar v = False"

subsection \<open>A sample host\<close>

text \<open>
  A host for the worked examples. Its \<open>Number\<close> reads a non-empty string of decimal
  digits, its \<open>Date.parse\<close> knows two ISO dates, and its \<open>JSON.parse\<close> knows a few
  texts; each is \<open>NaN\<close> or a syntax error elsewhere. The general theorems hold for
  every host.
\<close>

definition digit_of :: "char \<Rightarrow> nat option" where
  "digit_of = map_of (zip ''0123456789'' [0, 1, 2, 3, 4, 5, 6, 7, 8, 9])"

fun decimal :: "nat \<Rightarrow> string \<Rightarrow> nat option" where
  "decimal acc [] = Some acc"
| "decimal acc (c # cs) =
     (case digit_of c of None \<Rightarrow> None | Some d \<Rightarrow> decimal (10 * acc + d) cs)"

definition sample_Number :: "string \<Rightarrow> number" where
  "sample_Number s =
     (if s = [] then NaN
      else (case decimal 0 s of None \<Rightarrow> NaN | Some n \<Rightarrow> Fin (of_nat n)))"

definition sample_Date_parse :: "string \<Rightarrow> int option" where
  "sample_Date_parse s =
     (if s = ''2023-01-01'' then Some 1672531200000
      else if s = ''1970-01-01'' then Some 0
      else None)"

definition sample_JSON_parse :: "jsval \<Rightarrow> jsval option" where
  "sample_JSON_parse v =
     (if v = JStr ''5'' then Some (JNum (Fin 5))
      else if v = JStr ''true'' then Some (JBool True)
      else if v = JStr ''null'' then Some JNull
      else if v = JStr ''{}'' then Some (JObj [])
      else if v = JStr ''[7]'' then Some (JObj [(''0'', JNum (Fin 7))])
      else None)"

definition sample_host :: host where
  "sample_host =
     \<lparr>Number = sample_Number, Date_parse = sample_Date_parse, JSON_parse = sample_JSON_parse\<rparr>"

text \<open>
  The schema \<open>{ name: { q: true }, age: {} }\<close> and the filter
  \<open>{ name: "Bob", age: 30, secret: "x" }\<close>.
\<close>

definition sample_schema :: schema where
  "sample_schema = \<lparr>obj = [(''name'', JObj [(''q'', JBool True)]), (''age'', JObj [])]\<rparr>"

definition sample_filter :: jsval where
  "sample_filter = JObj [(''name'', JStr ''Bob''), (''age'', JNum (Fin 30)), (''secret'', JStr ''x'')]"

section \<open>Properties\<close>

lemmas sample_defs = sample_host_def sample_Number_def sample_Date_parse_def
  sample_JSON_parse_def digit_of_def sample_schema_def sample_filter_def

lemmas string_defs = trim_def is_space_def strip_close_def

lemmas parse_defs = stringToObject_def parse_string_def store_pair_def operator_entry_def
  plain_entry_def

lemmas validate_defs = validateFilterFields_def validate_step_def hasOwnProperty_def
  get_prop_def queryable_def warning_def

subsection \<open>Objects and the validation loop\<close>

lemma keys_set_prop: "fst ` set (set_prop kvs key v) = insert key (fst ` set kvs)"
  by (induction kvs) auto


lemma hasOwnProperty_map_of: "hasOwnProperty kvs key \<longleftrightarrow> map_of kvs key \<noteq> None"
  by (simp add: hasOwnProperty_def map_of_eq_None_iff)

text \<open>The test \<open>field && typeof field === 'object' && 'q' in field\<close>.\<close>

lemma marker_test:
  "(truthy field \<and> typeof field = ''object'' \<and> in_op ''q'' field) \<longleftrightarrow>
   (\<exists>meta. field = JObj meta \<and> hasOwnProperty meta ''q'')"
  by (cases field) auto

text \<open>The two nested tests of the loop body together are the specification's \<open>queryable\<close>.\<close>

lemma step_test_queryable:
  "((hasOwnProperty (obj sch) key \<or> key = ''createdAt'' \<or> key = ''updatedAt'') \<and>
    ((truthy (get_prop (obj sch) key) \<and> typeof (get_prop (obj sch) key) = ''object''
        \<and> in_op ''q'' (get_prop (obj sch) key))
      \<or> key = ''createdAt'' \<or> key = ''updatedAt''))
   \<longleftrightarrow> queryable sch key"
  unfolding marker_test
  by (auto simp: queryable_def get_prop_def hasOwnProperty_map_of
      split: option.splits jsval.splits)

lemma validate_step_cases:
  "validate_step sch fo (san, con) key =
     (if queryable sch key then (set_prop san key (index fo key), con)
      else if hasOwnProperty (obj sch) key then (san, con @ [warning key])
      else (san, con))"
  using step_test_queryable [of sch key]
  by (auto simp: validate_step_def Let_def)

lemma validate_loop_keys:
  "fst ` set (fst (validate_loop sch fo keys st)) =
     fst ` set (fst st) \<union> {key \<in> set keys. queryable sch key}"
proof (induction keys arbitrary: st)
  case Nil
  show ?case by simp
next
  case (Cons key keys)
  obtain san con where st: "st = (san, con)" by (cases st)
  show ?case
    by (auto simp: Cons.IH st validate_step_cases keys_set_prop)
qed

lemma validate_loop_console:
  "snd (validate_loop sch fo keys st) =
     snd st @ map warning
       (filter (\<lambda>key. hasOwnProperty (obj sch) key \<and> \<not> queryable sch key) keys)"
proof (induction keys arbitrary: st)
  case Nil
  show ?case by simp
next
  case (Cons key keys)
  obtain san con where st: "st = (san, con)" by (cases st)
  show ?case
    by (simp add: Cons.IH st validate_step_cases)
qed

text \<open>
  \<open>stringToObject\<close> returns an object whenever it returns, so the \<open>for ... in\<close> loop of
  \<open>validateFilterFields\<close> always runs over an object.
\<close>

lemma stringToObject_object:
  "stringToObject h v = Inr r \<Longrightarrow> truthy r \<and> typeof r = ''object''"
  by (cases v) (auto simp: stringToObject_def split: if_splits)



lemma sample_validation:
  "validateFilterFields sample_host sample_filter sample_schema =
     Inr ([(''name'', JStr ''Bob'')], [warning ''age''])"
  by (simp add: stringToObject_def validateFilterFields_def validate_step_def
      hasOwnProperty_def get_prop_def sample_defs)

subsection \<open>Splitting\<close>







subsection \<open>\<open>validateFilterFields\<close>\<close>



text \<open>
  \<^bold>\<open>C2.\<close> As stated, every rejected key is omitted, reported by a diagnostic message
  and raises no error. The code reports only a rejected key that the schema knows: in
  the sample, \<open>secret\<close> is a key of the filter, is not queryable and is dropped, and the
  only message is the one for \<open>age\<close>.
\<close>

theorem unknown_key_not_reported:
  "''secret'' \<in> set (for_in_keys sample_filter)
   \<and> \<not> queryable sample_schema ''secret''
   \<and> validateFilterFields sample_host sample_filter sample_schema =
       Inr ([(''name'', JStr ''Bob'')], [warning ''age''])
   \<and> warning ''secret'' \<notin> set [warning ''age'']"
  by (simp add: sample_validation) (simp add: validate_defs sample_defs)

text \<open>
  \<^bold>\<open>C2, amended.\<close> Once the filter is parsed, \<open>validateFilterFields\<close> raises no error;
  every key of the parsed filter that is not queryable is omitted from the result; and
  the diagnostic messages are, in order, one for each rejected key that is a key of the
  schema. A rejected key that the schema does not know is dropped without a message.
\<close>

theorem validateFilterFields_rejections:
  assumes "stringToObject h filter_in = Inr filterObject"
  shows "\<exists>sanitized console.
           validateFilterFields h filter_in sch = Inr (sanitized, console) \<and>
           (\<forall>key \<in> set (for_in_keys filterObject).
              \<not> queryable sch key \<longrightarrow> key \<notin> set (map fst sanitized)) \<and>
           console = map warning
             (filter (\<lambda>key. hasOwnProperty (obj sch) key \<and> \<not> queryable sch key)
                (for_in_keys filterObject))"
proof -
  obtain sanitized console
    where run: "validate_loop sch filterObject (for_in_keys filterObject) ([], []) =
      (sanitized, console)"
    by (cases "validate_loop sch filterObject (for_in_keys filterObject) ([], [])")
  have res: "validateFilterFields h filter_in sch = Inr (sanitized, console)"
    by (simp add: validateFilterFields_def assms run)
  have keys: "fst ` set sanitized =
      {key \<in> set (for_in_keys filterObject). queryable sch key}"
    using validate_loop_keys [of sch filterObject "for_in_keys filterObject" "([], [])"]
    by (simp add: run)
  have con: "console = map warning
      (filter (\<lambda>key. hasOwnProperty (obj sch) key \<and> \<not> queryable sch key)
         (for_in_keys filterObject))"
    using validate_loop_console [of sch filterObject "for_in_keys filterObject" "([], [])"]
    by (simp add: run)
  from res keys con show ?thesis by auto
qed

theorem validateFilterFields_rejections_witness:
  "stringToObject sample_host sample_filter = Inr sample_filter
   \<and> validateFilterFields sample_host sample_filter sample_schema =
       Inr ([(''name'', JStr ''Bob'')], [warning ''age''])
   \<and> \<not> queryable sample_schema ''age'' \<and> \<not> queryable sample_schema ''secret''
   \<and> ''age'' \<notin> set (map fst [(''name'', JStr ''Bob'')])
   \<and> ''secret'' \<notin> set (map fst [(''name'', JStr ''Bob'')])
   \<and> [warning ''age''] = map warning
        (filter (\<lambda>key. hasOwnProperty (obj sample_schema) key \<and> \<not> queryable sample_schema key)
           (for_in_keys sample_filter))"
proof -
  have parsed: "stringToObject sample_host sample_filter = Inr sample_filter"
    by (simp add: stringToObject_def sample_defs)
  obtain sanitized console
    where res: "validateFilterFields sample_host sample_filter sample_schema =
        Inr (sanitized, console)"
      and omitted: "\<forall>key \<in> set (for_in_keys sample_filter).
        \<not> queryable sample_schema key \<longrightarrow> key \<notin> set (map fst sanitized)"
      and con: "console = map warning
        (filter (\<lambda>key. hasOwnProperty (obj sample_schema) key \<and> \<not> queryable sample_schema key)
           (for_in_keys sample_filter))"
    using validateFilterFields_rejections [OF parsed, of sample_schema] by blast
  from res have eqs: "sanitized = [(''name'', JStr ''Bob'')]" "console = [warning ''age'']"
    by (simp_all add: sample_validation)
  have nq: "\<not> queryable sample_schema ''age''" "\<not> queryable sample_schema ''secret''"
    by (simp_all add: validate_defs sample_defs)
  have inkeys: "''age'' \<in> set (for_in_keys sample_filter)"
    "''secret'' \<in> set (for_in_keys sample_filter)"
    by (simp_all add: sample_defs)
  from omitted nq inkeys have "''age'' \<notin> set (map fst sanitized)"
    "''secret'' \<notin> set (map fst sanitized)" by blast+
  with parsed con nq eqs sample_validation show ?thesis by simp
qed



subsection \<open>\<open>stringToObject\<close>\<close>




text \<open>
  The date test is the truthiness of \<open>Date.parse(operatorValue)\<close>, so an operand whose
  time value is zero, the epoch, is kept as a string although it is a valid date.
\<close>

lemma epoch_date_kept_as_string:
  "Date_parse sample_host ''1970-01-01'' = Some 0
   \<and> stringToObject sample_host (JStr ''{createdAt=gte:1970-01-01}'') =
       Inr (JObj [(''createdAt'', JObj [(''gte'', JStr ''1970-01-01'')])])"
  by (simp add: parse_defs string_defs sample_defs)






subsection \<open>\<open>buildFilterObject\<close>\<close>

text \<open>
  \<^bold>\<open>C7.\<close> On a non-empty text that \<open>JSON.parse\<close> rejects, \<open>buildFilterObject\<close> ends with
  the error \<open>Invalid filter query format\<close> as its outcome; \<open>{not json\<close> is such a text.
\<close>

theorem buildFilterObject_invalid:
  "(s \<noteq> [] \<and> JSON_parse h (JStr s) = None \<longrightarrow>
      buildFilterObject h (JStr s) = Inl InvalidFilterFormat)
   \<and> (JSON_parse h (JStr ''{not json'') = None \<longrightarrow>
      buildFilterObject h (JStr ''{not json'') = Inl InvalidFilterFormat)"
  by (simp add: buildFilterObject_def InvalidFilterFormat_def)

theorem buildFilterObject_invalid_witness:
  "JSON_parse sample_host (JStr ''{not json'') = None
   \<and> buildFilterObject sample_host (JStr ''{not json'') = Inl (Error ''Invalid filter query format'')"
proof -
  have rejected: "JSON_parse sample_host (JStr ''{not json'') = None"
    by (simp add: sample_defs)
  with buildFilterObject_invalid [of "''{not json''" sample_host]
  show ?thesis by (simp add: InvalidFilterFormat_def)
qed

text \<open>
  \<^bold>\<open>C8.\<close> On a well-formed JSON text (which is never empty), \<open>buildFilterObject\<close>
  returns the value \<open>JSON.parse\<close> gives, whatever its keys and values are.
\<close>

theorem buildFilterObject_parses:
  "s \<noteq> [] \<Longrightarrow> JSON_parse h (JStr s) = Some v \<Longrightarrow> buildFilterObject h (JStr s) = Inr v"
  by (simp add: buildFilterObject_def)

theorem buildFilterObject_parses_witness:
  "JSON_parse sample_host (JStr ''[7]'') = Some (JObj [(''0'', JNum (Fin 7))])
   \<and> buildFilterObject sample_host (JStr ''[7]'') = Inr (JObj [(''0'', JNum (Fin 7))])"
proof -
  have parsed: "JSON_parse sample_host (JStr ''[7]'') = Some (JObj [(''0'', JNum (Fin 7))])"
    by (simp add: sample_defs)
  have "buildFilterObject sample_host (JStr ''[7]'') = Inr (JObj [(''0'', JNum (Fin 7))])"
    by (rule buildFilterObject_parses [OF _ parsed]) simp
  with parsed show ?thesis by simp
qed

text \<open>
  \<^bold>\<open>C9.\<close> \<open>buildFilterObject\<close> returns an empty mapping for \<open>undefined\<close>, for \<open>null\<close> and
  for the empty string.
\<close>

theorem buildFilterObject_empty:
  "buildFilterObject h JUndefined = Inr (JObj [])
   \<and> buildFilterObject h JNull = Inr (JObj [])
   \<and> buildFilterObject h (JStr []) = Inr (JObj [])"
  by (simp add: buildFilterObject_def)

theorem buildFilterObject_empty_witness:
  "buildFilterObject sample_host JUndefined = Inr (JObj [])
   \<and> buildFilterObject sample_host JNull = Inr (JObj [])
   \<and> buildFilterObject sample_host (JStr '''') = Inr (JObj [])"
  using buildFilterObject_empty [of sample_host] by simp

text \<open>
  \<^bold>\<open>C10.\<close> On a non-empty text that \<open>JSON.parse\<close> reads as a scalar (a number, a
  boolean, \<open>null\<close> or a string), \<open>buildFilterObject\<close> returns that scalar, which is not
  a key-value mapping.
\<close>

theorem buildFilterObject_scalar:
  "s \<noteq> [] \<Longrightarrow> JSON_parse h (JStr s) = Some v \<Longrightarrow> json_scalar v \<Longrightarrow>
     buildFilterObject h (JStr s) = Inr v \<and> buildFilterObject h (JStr s) \<noteq> Inr (JObj m)"
  by (cases v) (simp_all add: buildFilterObject_def)

theorem buildFilterObject_scalar_witness:
  "buildFilterObject sample_host (JStr ''5'') = Inr (JNum (Fin 5))
   \<and> buildFilterObject sample_host (JStr ''true'') = Inr (JBool True)
   \<and> buildFilterObject sample_host (JStr ''null'') = Inr JNull"
proof -
  have p5: "JSON_parse sample_host (JStr ''5'') = Some (JNum (Fin 5))"
    and pt: "JSON_parse sample_host (JStr ''true'') = Some (JBool True)"
    and pn: "JSON_parse sample_host (JStr ''null'') = Some JNull"
    by (simp_all add: sample_defs)
  have "buildFilterObject sample_host (JStr ''5'') = Inr (JNum (Fin 5))"
    using buildFilterObject_scalar [OF _ p5, of "[]"] by simp
  moreover have "buildFilterObject sample_host (JStr ''true'') = Inr (JBool True)"
    using buildFilterObject_scalar [OF _ pt, of "[]"] by simp
  moreover have "buildFilterObject sample_host (JStr ''null'') = Inr JNull"
    using buildFilterObject_scalar [OF _ pn, of "[]"] by simp
  ultimately show ?thesis by simp
qed

end
